theory Spec2Isabelle
  imports Main "HOL-Library.Word"
begin

unbundle bit_operations_syntax

section \<open>Ring arithmetic of the Chord identifier space (pkg/hash/hash.go)\<close>

text \<open>
  Go's \<open>*big.Int\<close> is an unbounded integer and is modelled as \<open>int\<close>. The struct
  \<open>Hash\<close> has the single field \<open>value\<close>; the field is called \<open>hvalue\<close> here,
  because \<open>value\<close> is a command of Isabelle. A \<open>*Hash\<close> argument that the code
  compares with \<open>nil\<close> is a \<open>Hash option\<close>; a method receiver is a \<open>Hash\<close>,
  since the methods read \<open>h.value\<close> of the receiver without a check.
\<close>

definition M :: nat where
  "M = 160"

record Hash =
  hvalue :: int

text \<open>\<open>new(big.Int).Lsh(big.NewInt(1), M)\<close>, the local \<open>maxValue\<close> of the code.\<close>

definition maxValue :: int where
  "maxValue = push_bit M 1"

text \<open>
  \<open>NewHash\<close>: a \<open>nil\<close> argument stands for zero; \<open>big.Int.Mod\<close> is the Euclidean
  modulus, which for the positive modulus \<open>2^M\<close> is \<open>mod\<close> on \<open>int\<close>.
\<close>

definition NewHash :: "int option \<Rightarrow> Hash" where
  "NewHash v =
     (let v0 = (case v of None \<Rightarrow> 0 | Some x \<Rightarrow> x)
      in \<lparr>hvalue = v0 mod maxValue\<rparr>)"

text \<open>\<open>big.Int.Cmp\<close>: \<open>-1\<close>, \<open>0\<close> or \<open>+1\<close>.\<close>

definition Cmp :: "int \<Rightarrow> int \<Rightarrow> int" where
  "Cmp x y = (if x < y then - 1 else if x = y then 0 else 1)"

definition Add :: "Hash \<Rightarrow> int \<Rightarrow> Hash" where
  "Add h v = NewHash (Some (hvalue h + v))"

definition AddPowerOfTwo :: "Hash \<Rightarrow> int \<Rightarrow> Hash" where
  "AddPowerOfTwo h i =
     (if i < 0 \<or> i \<ge> int M then NewHash (Some (hvalue h))
      else Add h (push_bit (nat i) 1))"

definition Equal :: "Hash \<Rightarrow> Hash option \<Rightarrow> bool" where
  "Equal h other =
     (case other of None \<Rightarrow> False | Some t \<Rightarrow> Cmp (hvalue h) (hvalue t) = 0)"

definition Less :: "Hash \<Rightarrow> Hash option \<Rightarrow> bool" where
  "Less h other =
     (case other of None \<Rightarrow> False | Some t \<Rightarrow> Cmp (hvalue h) (hvalue t) < 0)"

definition Distance :: "Hash \<Rightarrow> Hash option \<Rightarrow> int" where
  "Distance h target =
     (case target of
        None \<Rightarrow> 0
      | Some t \<Rightarrow>
          (let distance = hvalue t - hvalue h
           in if sgn distance < 0 then distance + maxValue else distance))"

definition InRange :: "Hash \<Rightarrow> Hash option \<Rightarrow> Hash option \<Rightarrow> bool" where
  "InRange h start endh =
     (case start of
        None \<Rightarrow> False
      | Some s \<Rightarrow>
          (case endh of
             None \<Rightarrow> False
           | Some e \<Rightarrow>
               if Equal s (Some e) then \<not> Equal h (Some s)
               else if Less s (Some e)
               then Less s (Some h) \<and> (Less h (Some e) \<or> Equal h (Some e))
               else Less s (Some h) \<or> Less h (Some e) \<or> Equal h (Some e)))"

definition InRangeExclusive :: "Hash \<Rightarrow> Hash option \<Rightarrow> Hash option \<Rightarrow> bool" where
  "InRangeExclusive h start endh =
     (case start of
        None \<Rightarrow> False
      | Some s \<Rightarrow>
          (case endh of
             None \<Rightarrow> False
           | Some e \<Rightarrow>
               if Equal s (Some e) then False
               else if Less s (Some e) then Less s (Some h) \<and> Less h (Some e)
               else Less s (Some h) \<or> Less h (Some e)))"

definition Copy :: "Hash \<Rightarrow> Hash" where
  "Copy h = NewHash (Some (hvalue h))"

definition FingerStart :: "Hash \<Rightarrow> int \<Rightarrow> Hash" where
  "FingerStart nodeID i =
     (if i \<le> 0 \<or> i > int M then Copy nodeID else AddPowerOfTwo nodeID (i - 1))"

text \<open>The identifier space of the specification: \<open>[0, 2^160)\<close>.\<close>

definition in_ring :: "Hash \<Rightarrow> bool" where
  "in_ring h = (0 \<le> hvalue h \<and> hvalue h < 2 ^ 160)"

text \<open>The hash that \<open>NewHash(big.NewInt(n))\<close> builds.\<close>

definition hashOf :: "int \<Rightarrow> Hash" where
  "hashOf n = NewHash (Some n)"

section \<open>Library functions the package calls\<close>

text \<open>
  The package calls \<open>crypto/sha1\<close>, \<open>big.Int.SetBytes\<close>, \<open>big.Int.SetString\<close> and
  \<open>strconv.ParseInt\<close> of the Go standard library. They are modelled here as the
  library computes them. A Go \<open>string\<close> is a sequence of bytes, and \<open>[]byte(s)\<close> is
  that sequence (the UTF-8 encoding of the text): it is a \<open>string\<close> of HOL, whose
  characters are bytes.
\<close>

type_synonym byte = "8 word"
type_synonym uint32 = "32 word"

definition stringBytes :: "string \<Rightarrow> byte list" where
  "stringBytes s = map of_char s"

subsection \<open>SHA-1\<close>

definition BEPutUint64 :: "64 word \<Rightarrow> byte list" where
  "BEPutUint64 n = map (\<lambda>k. ucast (drop_bit (8 * k) n)) [7, 6, 5, 4, 3, 2, 1, 0]"

text \<open>
  The padding that \<open>Sum\<close> appends to a message of \<open>len\<close> bytes: the byte \<open>0x80\<close>,
  zeros up to 56 modulo 64, and the length in bits as a 64-bit big-endian number.
\<close>

definition sha1_padding :: "nat \<Rightarrow> byte list" where
  "sha1_padding len =
     (let t = (if len mod 64 < 56 then 56 - len mod 64 else 64 + 56 - len mod 64)
      in (0x80 # replicate (t - 1) 0) @ BEPutUint64 (push_bit 3 (of_nat len)))"

fun BEUint32 :: "byte list \<Rightarrow> uint32" where
  "BEUint32 (b0 # b1 # b2 # b3 # _) =
     push_bit 24 (ucast b0) OR push_bit 16 (ucast b1) OR push_bit 8 (ucast b2) OR ucast b3"
| "BEUint32 _ = 0"

fun blockWords :: "nat \<Rightarrow> byte list \<Rightarrow> uint32 list" where
  "blockWords 0 p = []"
| "blockWords (Suc n) p = BEUint32 p # blockWords n (drop 4 p)"

text \<open>
  The message schedule, built with the newest word first:
  \<open>w[i] = rotl 1 (w[i-3] XOR w[i-8] XOR w[i-14] XOR w[i-16])\<close>.
\<close>

fun expand :: "nat \<Rightarrow> uint32 list \<Rightarrow> uint32 list" where
  "expand 0 ws = ws"
| "expand (Suc n) ws =
     expand n (word_rotl 1 (ws ! 2 XOR ws ! 7 XOR ws ! 13 XOR ws ! 15) # ws)"

definition schedule :: "byte list \<Rightarrow> uint32 list" where
  "schedule p = rev (expand 64 (rev (blockWords 16 p)))"

definition sha1_f :: "nat \<Rightarrow> uint32 \<Rightarrow> uint32 \<Rightarrow> uint32 \<Rightarrow> uint32" where
  "sha1_f i b c d =
     (if i < 20 then (b AND c) OR (NOT b AND d)
      else if i < 40 then b XOR c XOR d
      else if i < 60 then ((b OR c) AND d) OR (b AND c)
      else b XOR c XOR d)"

definition sha1_K :: "nat \<Rightarrow> uint32" where
  "sha1_K i =
     (if i < 20 then 0x5A827999
      else if i < 40 then 0x6ED9EBA1
      else if i < 60 then 0x8F1BBCDC
      else 0xCA62C1D6)"

type_synonym sha1_state = "uint32 \<times> uint32 \<times> uint32 \<times> uint32 \<times> uint32"

fun sha1_round :: "sha1_state \<Rightarrow> nat \<times> uint32 \<Rightarrow> sha1_state" where
  "sha1_round (a, b, c, d, e) (i, w) =
     (word_rotl 5 a + sha1_f i b c d + e + w + sha1_K i, a, word_rotl 30 b, c, d)"

fun sha1_block :: "sha1_state \<Rightarrow> byte list \<Rightarrow> sha1_state" where
  "sha1_block (h0, h1, h2, h3, h4) p =
     (case foldl sha1_round (h0, h1, h2, h3, h4) (zip [0..<80] (schedule p)) of
        (a, b, c, d, e) \<Rightarrow> (h0 + a, h1 + b, h2 + c, h3 + d, h4 + e))"

fun sha1_blocks :: "nat \<Rightarrow> sha1_state \<Rightarrow> byte list \<Rightarrow> sha1_state" where
  "sha1_blocks 0 h p = h"
| "sha1_blocks (Suc n) h p = sha1_blocks n (sha1_block h (take 64 p)) (drop 64 p)"

definition sha1_init :: sha1_state where
  "sha1_init = (0x67452301, 0xEFCDAB89, 0x98BADCFE, 0x10325476, 0xC3D2E1F0)"

definition BEPutUint32 :: "uint32 \<Rightarrow> byte list" where
  "BEPutUint32 w = map (\<lambda>k. ucast (drop_bit (8 * k) w)) [3, 2, 1, 0]"

text \<open>\<open>hasher := sha1.New(); hasher.Write(msg); hasher.Sum(nil)\<close>.\<close>

definition sha1_Sum :: "byte list \<Rightarrow> byte list" where
  "sha1_Sum msg =
     (let p = msg @ sha1_padding (length msg)
      in case sha1_blocks (length p div 64) sha1_init p of
           (h0, h1, h2, h3, h4) \<Rightarrow> concat (map BEPutUint32 [h0, h1, h2, h3, h4]))"

subsection \<open>Conversions of \<open>math/big\<close> and \<open>strconv\<close>\<close>

text \<open>\<open>big.Int.SetBytes\<close>: the bytes as a big-endian unsigned integer.\<close>

definition SetBytes :: "byte list \<Rightarrow> int" where
  "SetBytes buf = foldl (\<lambda>acc b. acc * 256 + uint b) 0 buf"

datatype error = InvalidHex string | ErrSyntax | ErrRange

text \<open>
  The digit value that the scanner of \<open>math/big\<close> gives a byte (bases up to 36): a byte
  that is no digit gets \<open>MaxBase + 1 = 63\<close>, above every base.
\<close>

definition scanDigit :: "byte \<Rightarrow> int" where
  "scanDigit ch =
     (if 0x30 \<le> ch \<and> ch \<le> 0x39 then uint (ch - 0x30)
      else if 0x61 \<le> ch \<and> ch \<le> 0x7A then uint (ch - 0x61 + 10)
      else if 0x41 \<le> ch \<and> ch \<le> 0x5A then uint (ch - 0x41 + 10)
      else 63)"

text \<open>
  The scanner stops at the first byte that is not a digit of the base; \<open>SetString\<close>
  fails unless the whole string was consumed, so such a byte is a failure (\<open>None\<close>).
\<close>

fun scanDigits :: "int \<Rightarrow> byte list \<Rightarrow> int \<Rightarrow> int option" where
  "scanDigits b [] acc = Some acc"
| "scanDigits b (ch # r) acc =
     (if scanDigit ch \<ge> b then None else scanDigits b r (acc * b + scanDigit ch))"

text \<open>
  \<open>big.Int.SetString(s, base)\<close> for a base from 2 to 36: an optional sign, then at
  least one digit of the base, and nothing else. \<open>None\<close> is the result \<open>ok = false\<close>.
\<close>

definition SetString :: "string \<Rightarrow> int \<Rightarrow> int option" where
  "SetString s base =
     (case stringBytes s of
        [] \<Rightarrow> None
      | ch # r \<Rightarrow>
          (let neg = (ch = 0x2D);
               digits = (if ch = 0x2D \<or> ch = 0x2B then r else ch # r)
           in if digits = [] then None
              else (case scanDigits base digits 0 of
                      None \<Rightarrow> None
                    | Some n \<Rightarrow> Some (if neg then - n else n))))"

definition lower :: "byte \<Rightarrow> byte" where
  "lower c = c OR 0x20"

definition maxUint64 :: int where
  "maxUint64 = 2 ^ 64 - 1"

text \<open>
  The loop of \<open>strconv.ParseUint\<close> for a base from 2 to 36. The accumulator is a
  \<open>uint64\<close> in the code; here it is an \<open>int\<close> and the two tests that detect the
  overflow of \<open>n * base\<close> and of \<open>n + d\<close> are written on the exact values.
\<close>

fun ParseUint_loop :: "int \<Rightarrow> int \<Rightarrow> byte list \<Rightarrow> int \<Rightarrow> error + int" where
  "ParseUint_loop base maxVal [] n = Inr n"
| "ParseUint_loop base maxVal (c # cs) n =
     (if \<not> ((0x30 \<le> c \<and> c \<le> 0x39) \<or> (0x61 \<le> lower c \<and> lower c \<le> 0x7A))
      then Inl ErrSyntax
      else
        (let d = (if 0x30 \<le> c \<and> c \<le> 0x39 then uint (c - 0x30)
                  else uint (lower c - 0x61 + 10))
         in if d \<ge> base then Inl ErrSyntax
            else if n \<ge> maxUint64 div base + 1 then Inl ErrRange
            else if n * base + d > maxVal then Inl ErrRange
            else ParseUint_loop base maxVal cs (n * base + d)))"

definition ParseUint :: "byte list \<Rightarrow> int \<Rightarrow> nat \<Rightarrow> error + int" where
  "ParseUint s base bitSize =
     (if s = [] then Inl ErrSyntax
      else ParseUint_loop base (2 ^ bitSize - 1) s 0)"

text \<open>
  \<open>strconv.ParseInt(s, base, bitSize)\<close>. When \<open>ParseUint\<close> reports a range error it
  returns the largest value, which the cutoff tests of \<open>ParseInt\<close> reject again: the
  error stays a range error.
\<close>

definition ParseInt :: "string \<Rightarrow> int \<Rightarrow> nat \<Rightarrow> error + int" where
  "ParseInt s base bitSize =
     (case stringBytes s of
        [] \<Rightarrow> Inl ErrSyntax
      | c # cs \<Rightarrow>
          (let neg = (c = 0x2D);
               s1 = (if c = 0x2B \<or> c = 0x2D then cs else c # cs)
           in case ParseUint s1 base bitSize of
                Inl e \<Rightarrow> Inl e
              | Inr un \<Rightarrow>
                  (let cutoff = 2 ^ (bitSize - 1)
                   in if \<not> neg \<and> un \<ge> cutoff then Inl ErrRange
                      else if neg \<and> un > cutoff then Inl ErrRange
                      else Inr (if neg then - un else un))))"

section \<open>Constructors from strings (pkg/hash/hash.go)\<close>

definition NewHashFromString :: "string \<Rightarrow> Hash" where
  "NewHashFromString s =
     (let hashBytes = sha1_Sum (stringBytes s);
          v = SetBytes hashBytes
      in NewHash (Some v))"

definition NewHashFromHex :: "string \<Rightarrow> error + Hash" where
  "NewHashFromHex hexStr =
     (case SetString hexStr 16 of
        None \<Rightarrow> Inl (InvalidHex hexStr)
      | Some v \<Rightarrow> Inr (NewHash (Some v)))"

definition GenerateID :: "string \<Rightarrow> Hash" where
  "GenerateID address = NewHashFromString address"

definition ParseNodeID :: "string \<Rightarrow> error + Hash" where
  "ParseNodeID idStr =
     (case NewHashFromHex idStr of
        Inr h \<Rightarrow> Inr h
      | Inl _ \<Rightarrow>
          (case ParseInt idStr 10 64 of
             Inr v \<Rightarrow> Inr (NewHash (Some v))
           | Inl _ \<Rightarrow> Inr (NewHashFromString idStr)))"

text \<open>The identifier of the specification: the digest read as a big-endian number.\<close>

fun BE_unsigned :: "byte list \<Rightarrow> int" where
  "BE_unsigned [] = 0"
| "BE_unsigned (b # bs) = uint b * 256 ^ length bs + BE_unsigned bs"

definition spec_identifier :: "string \<Rightarrow> int" where
  "spec_identifier address = BE_unsigned (sha1_Sum (stringBytes address))"

section \<open>Node state and ring creation (internal/chord)\<close>

text \<open>
  Modelled from the spec: the node descriptor, a pair \<open>(id, address)\<close> used as a value
  (the type \<open>NodeInfo\<close> with the fields \<open>ID\<close> and \<open>Address\<close> that the tests read).
  The file that declares it, \<open>internal/chord/node.go\<close>, is not among the sources.
\<close>

record NodeInfo =
  ID :: Hash
  Address :: string

text \<open>
  Modelled from the spec: the length of the finger table, a fixed-length array of 160
  entries (\<open>FingerTableSize\<close> in the tests; its declaration is not among the sources).
\<close>

definition FingerTableSize :: nat where
  "FingerTableSize = M"

text \<open>
  Modelled from the spec: the node state of section 3, that is \<open>self\<close>, \<open>successor\<close>,
  \<open>predecessor\<close> (a descriptor or none), the finger table, \<open>next_finger\<close> and the
  lifecycle flag \<open>running\<close>. The struct \<open>Node\<close> is not among the sources.
\<close>

record Node =
  self :: NodeInfo
  successor :: "NodeInfo option"
  predecessor :: "NodeInfo option"
  fingers :: "NodeInfo list"
  next_finger :: nat
  running :: bool

text \<open>
  Modelled from the spec: the error kind of section 7 that \<open>join\<close> surfaces to its
  caller.
\<close>

datatype node_error = Fatal

text \<open>
  Modelled from the spec: \<open>join(bootstrap)\<close> of section 4.4, whose code
  (\<open>Node.Join\<close>) is not among the sources. With an empty bootstrap the node creates a
  ring: \<open>successor = self\<close>, \<open>predecessor = none\<close>, every finger entry \<open>= self\<close>.
  Otherwise it calls \<open>find_successor(self.id)\<close> on the bootstrap and the returned node
  becomes the successor; an unreachable bootstrap is the fatal error of section 7. The
  remote call is the parameter \<open>remote_find_successor\<close>, which is \<open>None\<close> when the
  call fails. The start of the maintenance scheduler is not part of the model.
\<close>

definition Join ::
  "(string \<Rightarrow> Hash \<Rightarrow> NodeInfo option) \<Rightarrow> Node \<Rightarrow> string \<Rightarrow> node_error + Node" where
  "Join remote_find_successor n bootstrap =
     (if bootstrap = []
      then Inr (n\<lparr>successor := Some (self n),
                  predecessor := None,
                  fingers := map (\<lambda>_. self n) (fingers n)\<rparr>)
      else (case remote_find_successor bootstrap (ID (self n)) of
              None \<Rightarrow> Inl Fatal
            | Some s \<Rightarrow> Inr (n\<lparr>successor := Some s\<rparr>)))"

text \<open>Two values for examples: a descriptor of another node, and a node that knows it.\<close>

definition stale :: NodeInfo where
  "stale = \<lparr>ID = hashOf 7, Address = ''B:1''\<rparr>"

definition nodeA :: Node where
  "nodeA =
     \<lparr>self = \<lparr>ID = hashOf 100, Address = ''A:1''\<rparr>,
      successor = None,
      predecessor = Some stale,
      fingers = replicate 160 stale,
      next_finger = 1,
      running = True\<rparr>"

section \<open>Basic facts\<close>

lemma maxValue_eq: "maxValue = 2 ^ 160"
  by (simp add: maxValue_def M_def)

lemma Equal_Some: "Equal h (Some t) = (hvalue h = hvalue t)"
  by (simp add: Equal_def Cmp_def)

lemma Less_Some: "Less h (Some t) = (hvalue h < hvalue t)"
  by (simp add: Less_def Cmp_def)

lemma Distance_Some:
  "Distance h (Some t) =
     (if hvalue t < hvalue h then hvalue t - hvalue h + 2 ^ 160 else hvalue t - hvalue h)"
  by (simp add: Distance_def maxValue_eq Let_def)

lemma NewHash_in_ring: "in_ring (NewHash v)"
  by (simp add: NewHash_def in_ring_def maxValue_eq split: option.split)

lemma hvalue_NewHash_Some: "hvalue (NewHash (Some v)) = v mod 2 ^ 160"
  by (simp add: NewHash_def maxValue_eq)

lemma NewHash_id: "in_ring h \<Longrightarrow> NewHash (Some (hvalue h)) = h"
  by (simp add: NewHash_def in_ring_def maxValue_eq)

lemma hvalue_hashOf: "hvalue (hashOf n) = n mod 2 ^ 160"
  by (simp add: hashOf_def hvalue_NewHash_Some)

lemma in_ring_hashOf: "in_ring (hashOf n)"
  by (simp add: hashOf_def NewHash_in_ring)

subsection \<open>Big-endian numbers and the length of a digest\<close>

lemma foldl_SetBytes:
  "foldl (\<lambda>acc b. acc * 256 + uint b) a (bs :: byte list) =
     a * 256 ^ length bs + BE_unsigned bs"
  by (induction bs arbitrary: a) (simp_all add: algebra_simps)

lemma SetBytes_BE_unsigned: "SetBytes bs = BE_unsigned bs"
  by (simp add: SetBytes_def foldl_SetBytes)

lemma BE_unsigned_nonneg: "0 \<le> BE_unsigned bs"
  by (induction bs) simp_all

lemma BE_unsigned_less: "BE_unsigned bs < 256 ^ length bs"
proof (induction bs)
  case Nil
  show ?case by simp
next
  case (Cons b bs)
  define P where "P = (256::int) ^ length bs"
  have "uint b \<le> 255"
    using uint_lt2p [of b] by simp
  then have "uint b * P \<le> 255 * P"
    by (simp add: mult_right_mono P_def)
  moreover have "BE_unsigned bs < P"
    using Cons.IH by (simp add: P_def)
  ultimately have "uint b * P + BE_unsigned bs < 256 * P"
    by linarith
  then show ?case by (simp add: P_def)
qed

lemma length_sha1_Sum: "length (sha1_Sum msg) = 20"
  by (simp add: sha1_Sum_def BEPutUint32_def Let_def split: prod.split)

lemma sha1_less: "BE_unsigned (sha1_Sum msg) < 2 ^ 160"
  using BE_unsigned_less [of "sha1_Sum msg"] by (simp add: length_sha1_Sum)

subsection \<open>Two test vectors of SHA-1\<close>

text \<open>A rotation to the left of a 32-bit word, as a shift to each side.\<close>

lemma rotl32:
  assumes "n < 32"
  shows "word_rotl n (w :: 32 word) = push_bit n w OR drop_bit (32 - n) w"
proof (rule bit_word_eqI)
  fix k
  assume "k < LENGTH(32)"
  then have k: "k < 32"
    by simp
  have rot: "bit (word_rotl n w) k \<longleftrightarrow> bit w ((k + (32 - n)) mod 32)"
    using assms k by (simp add: bit_simps)
  have or: "bit (push_bit n w OR drop_bit (32 - n) w) k \<longleftrightarrow>
      (n \<le> k \<and> bit w (k - n)) \<or> bit w (32 - n + k)"
    using k by (simp add: bit_simps)
  show "bit (word_rotl n w) k \<longleftrightarrow> bit (push_bit n w OR drop_bit (32 - n) w) k"
  proof (cases "n \<le> k")
    case True
    then have "k + (32 - n) = (k - n) + 32"
      using assms by simp
    then have "(k + (32 - n)) mod 32 = (k - n) mod 32"
      by (simp only: mod_add_self2)
    then have idx: "(k + (32 - n)) mod 32 = k - n"
      using k by simp
    have "\<not> bit w (32 - n + k)"
    proof
      assume "bit w (32 - n + k)"
      then have "32 - n + k < LENGTH(32)"
        by (rule bit_imp_le_length)
      then show False
        using True assms by simp
    qed
    then show ?thesis
      using True by (simp only: rot or idx simp_thms)
  next
    case False
    then have "k + (32 - n) < 32"
      using assms by simp
    then have idx: "(k + (32 - n)) mod 32 = 32 - n + k"
      by (simp add: add.commute)
    show ?thesis
      using False by (simp only: rot or idx simp_thms)
  qed
qed

text \<open>Unfolding the recursions at a numeral, for evaluation by rewriting.\<close>

lemma replicate_numeral: "replicate (numeral k) x = x # replicate (pred_numeral k) x"
  by (simp add: numeral_eq_Suc)

lemma blockWords_numeral:
  "blockWords (numeral k) p = BEUint32 p # blockWords (pred_numeral k) (drop 4 p)"
  by (simp add: numeral_eq_Suc)

lemma expand_numeral:
  "expand (numeral k) ws =
     expand (pred_numeral k) (word_rotl 1 (ws ! 2 XOR ws ! 7 XOR ws ! 13 XOR ws ! 15) # ws)"
  by (simp add: numeral_eq_Suc)

lemma sha1_blocks_numeral:
  "sha1_blocks (numeral k) h p =
     sha1_blocks (pred_numeral k) (sha1_block h (take 64 p)) (drop 64 p)"
  by (simp add: numeral_eq_Suc)

text \<open>
  The message \<open>abc\<close>: its padded block, the 80 words of the schedule, the 80 rounds
  in four groups, and the digest \<open>a9993e36 4706816a ba3e2571 7850c26c 9cd0d89d\<close>.
\<close>

lemma abc_padded:
  "stringBytes ''abc'' @ sha1_padding 3 =
     [0x61, 0x62, 0x63, 0x80, 0, 0, 0, 0, 0, 0, 0, 0, 0, 0, 0, 0, 0, 0, 0, 0, 0, 0, 0, 0, 0,
     0, 0, 0, 0, 0, 0, 0, 0, 0, 0, 0, 0, 0, 0, 0, 0, 0, 0, 0, 0, 0, 0, 0, 0, 0, 0, 0, 0, 0,
     0, 0, 0, 0, 0, 0, 0, 0, 0, 0x18]"
  by (simp add: stringBytes_def sha1_padding_def BEPutUint64_def replicate_numeral)

lemma abc_schedule_0:
  "schedule
     [0x61, 0x62, 0x63, 0x80, 0, 0, 0, 0, 0, 0, 0, 0, 0, 0, 0, 0, 0, 0, 0, 0, 0, 0, 0, 0, 0,
     0, 0, 0, 0, 0, 0, 0, 0, 0, 0, 0, 0, 0, 0, 0, 0, 0, 0, 0, 0, 0, 0, 0, 0, 0, 0, 0, 0, 0,
     0, 0, 0, 0, 0, 0, 0, 0, 0, 0x18] =
     [0x61626380, 0, 0, 0, 0, 0, 0, 0, 0, 0, 0, 0, 0, 0, 0, 0x18, 0xC2C4C700, 0, 0x30,
     0x85898E01, 0, 0x60, 0xB131C03, 0x30, 0x85898EC1, 0x16263806, 0, 0x180, 0x2C4C700C,
     0xF0, 0x93AFB507, 0x5898E048, 0x8E9A9202, 0x600, 0xB131C0F0, 0x16263BC6, 0x4EBED41E,
     0x626380A1, 0x16263806, 0x18C0, 0xD2E138C4, 0xF00, 0x3AFB5079, 0x898E04E5, 0xE2BA3C2B,
     0x60C0, 0x53A37CD, 0x74458547, 0xDA9415ED, 0x26380A16, 0x626383A1, 0x4EBF54DE,
     0x3835B44B, 0xF600, 0x1E84C7A3, 0x98E04D98, 0x651D16A0, 0x62658CA1, 0x458544D6,
     0x44584CB7, 0x7BA06619, 0x6380AEA2, 0xAE55269, 0x627B49A1, 0x7CD45C9D, 0xF0000,
     0xFB50753A, 0xEC6765E8, 0xBA3C2BE2, 0x60C000, 0x3A37CD05, 0x458546F4, 0xB8599DD6,
     0x380A1A26, 0x1E02203, 0xE7CC3456, 0xE6E60B69, 0xF60A00, 0x5795EF4F, 0x822E0879]"
  by (simp add: schedule_def blockWords_numeral expand_numeral rotl32)

lemma abc_rounds_0_0:
  "foldl sha1_round
     (0x67452301, 0xEFCDAB89, 0x98BADCFE, 0x10325476, 0xC3D2E1F0)
     [(0, 0x61626380), (1, 0), (2, 0), (3, 0), (4, 0), (5, 0), (6, 0), (7, 0), (8, 0), (9,
     0), (10, 0), (11, 0), (12, 0), (13, 0), (14, 0), (15, 0x18), (16, 0xC2C4C700), (17, 0),
     (18, 0x30), (19, 0x85898E01)] =
     (0xFD9E1D7D, 0xDC64901D, 0x20AA99CA, 0xD3A49608, 0xC82F758B)"
  by (simp add: sha1_f_def sha1_K_def rotl32)

lemma abc_rounds_0_1:
  "foldl sha1_round
     (0xFD9E1D7D, 0xDC64901D, 0x20AA99CA, 0xD3A49608, 0xC82F758B)
     [(20, 0), (21, 0x60), (22, 0xB131C03), (23, 0x30), (24, 0x85898EC1), (25, 0x16263806),
     (26, 0), (27, 0x180), (28, 0x2C4C700C), (29, 0xF0), (30, 0x93AFB507), (31, 0x5898E048),
     (32, 0x8E9A9202), (33, 0x600), (34, 0xB131C0F0), (35, 0x16263BC6), (36, 0x4EBED41E),
     (37, 0x626380A1), (38, 0x16263806), (39, 0x18C0)] =
     (0x32DE1CBA, 0x4C986405, 0xF718E5CF, 0x3D447F6, 0xF72EEC32)"
  by (simp add: sha1_f_def sha1_K_def rotl32)

lemma abc_rounds_0_2:
  "foldl sha1_round
     (0x32DE1CBA, 0x4C986405, 0xF718E5CF, 0x3D447F6, 0xF72EEC32)
     [(40, 0xD2E138C4), (41, 0xF00), (42, 0x3AFB5079), (43, 0x898E04E5), (44, 0xE2BA3C2B),
     (45, 0x60C0), (46, 0x53A37CD), (47, 0x74458547), (48, 0xDA9415ED), (49, 0x26380A16),
     (50, 0x626383A1), (51, 0x4EBF54DE), (52, 0x3835B44B), (53, 0xF600), (54, 0x1E84C7A3),
     (55, 0x98E04D98), (56, 0x651D16A0), (57, 0x62658CA1), (58, 0x458544D6), (59,
     0x44584CB7)] =
     (0x3F52DE5A, 0x9D785FD, 0x3498BFD4, 0xF211824F, 0xD79915AB)"
  by (simp add: sha1_f_def sha1_K_def rotl32)

lemma abc_rounds_0_3:
  "foldl sha1_round
     (0x3F52DE5A, 0x9D785FD, 0x3498BFD4, 0xF211824F, 0xD79915AB)
     [(60, 0x7BA06619), (61, 0x6380AEA2), (62, 0xAE55269), (63, 0x627B49A1), (64,
     0x7CD45C9D), (65, 0xF0000), (66, 0xFB50753A), (67, 0xEC6765E8), (68, 0xBA3C2BE2), (69,
     0x60C000), (70, 0x3A37CD05), (71, 0x458546F4), (72, 0xB8599DD6), (73, 0x380A1A26), (74,
     0x1E02203), (75, 0xE7CC3456), (76, 0xE6E60B69), (77, 0xF60A00), (78, 0x5795EF4F), (79,
     0x822E0879)] =
     (0x42541B35, 0x5738D5E1, 0x21834873, 0x681E6DF6, 0xD8FDF6AD)"
  by (simp add: sha1_f_def sha1_K_def rotl32)

lemma abc_pairs_0:
  "zip [0..<80]
     [0x61626380, 0, 0, 0, 0, 0, 0, 0, 0, 0, 0, 0, 0, 0, 0, 0x18, 0xC2C4C700, 0, 0x30,
     0x85898E01, 0, 0x60, 0xB131C03, 0x30, 0x85898EC1, 0x16263806, 0, 0x180, 0x2C4C700C,
     0xF0, 0x93AFB507, 0x5898E048, 0x8E9A9202, 0x600, 0xB131C0F0, 0x16263BC6, 0x4EBED41E,
     0x626380A1, 0x16263806, 0x18C0, 0xD2E138C4, 0xF00, 0x3AFB5079, 0x898E04E5, 0xE2BA3C2B,
     0x60C0, 0x53A37CD, 0x74458547, 0xDA9415ED, 0x26380A16, 0x626383A1, 0x4EBF54DE,
     0x3835B44B, 0xF600, 0x1E84C7A3, 0x98E04D98, 0x651D16A0, 0x62658CA1, 0x458544D6,
     0x44584CB7, 0x7BA06619, 0x6380AEA2, 0xAE55269, 0x627B49A1, 0x7CD45C9D, 0xF0000,
     0xFB50753A, 0xEC6765E8, 0xBA3C2BE2, 0x60C000, 0x3A37CD05, 0x458546F4, 0xB8599DD6,
     0x380A1A26, 0x1E02203, 0xE7CC3456, 0xE6E60B69, 0xF60A00, 0x5795EF4F, 0x822E0879] =
     [(0, 0x61626380), (1, 0), (2, 0), (3, 0), (4, 0), (5, 0), (6, 0), (7, 0), (8, 0), (9,
     0), (10, 0), (11, 0), (12, 0), (13, 0), (14, 0), (15, 0x18), (16, 0xC2C4C700), (17, 0),
     (18, 0x30), (19, 0x85898E01)]
     @ [(20, 0), (21, 0x60), (22, 0xB131C03), (23, 0x30), (24, 0x85898EC1), (25, 0x16263806),
     (26, 0), (27, 0x180), (28, 0x2C4C700C), (29, 0xF0), (30, 0x93AFB507), (31, 0x5898E048),
     (32, 0x8E9A9202), (33, 0x600), (34, 0xB131C0F0), (35, 0x16263BC6), (36, 0x4EBED41E),
     (37, 0x626380A1), (38, 0x16263806), (39, 0x18C0)]
     @ [(40, 0xD2E138C4), (41, 0xF00), (42, 0x3AFB5079), (43, 0x898E04E5), (44, 0xE2BA3C2B),
     (45, 0x60C0), (46, 0x53A37CD), (47, 0x74458547), (48, 0xDA9415ED), (49, 0x26380A16),
     (50, 0x626383A1), (51, 0x4EBF54DE), (52, 0x3835B44B), (53, 0xF600), (54, 0x1E84C7A3),
     (55, 0x98E04D98), (56, 0x651D16A0), (57, 0x62658CA1), (58, 0x458544D6), (59,
     0x44584CB7)]
     @ [(60, 0x7BA06619), (61, 0x6380AEA2), (62, 0xAE55269), (63, 0x627B49A1), (64,
     0x7CD45C9D), (65, 0xF0000), (66, 0xFB50753A), (67, 0xEC6765E8), (68, 0xBA3C2BE2), (69,
     0x60C000), (70, 0x3A37CD05), (71, 0x458546F4), (72, 0xB8599DD6), (73, 0x380A1A26), (74,
     0x1E02203), (75, 0xE7CC3456), (76, 0xE6E60B69), (77, 0xF60A00), (78, 0x5795EF4F), (79,
     0x822E0879)]"
  by (simp add: upt_rec)

lemma abc_block_0:
  "sha1_block sha1_init
     [0x61, 0x62, 0x63, 0x80, 0, 0, 0, 0, 0, 0, 0, 0, 0, 0, 0, 0, 0, 0, 0, 0, 0, 0, 0, 0, 0,
     0, 0, 0, 0, 0, 0, 0, 0, 0, 0, 0, 0, 0, 0, 0, 0, 0, 0, 0, 0, 0, 0, 0, 0, 0, 0, 0, 0, 0,
     0, 0, 0, 0, 0, 0, 0, 0, 0, 0x18] =
     (0xA9993E36, 0x4706816A, 0xBA3E2571, 0x7850C26C, 0x9CD0D89D)"
  unfolding sha1_init_def sha1_block.simps abc_schedule_0 abc_pairs_0 foldl_append
    abc_rounds_0_0 abc_rounds_0_1 abc_rounds_0_2 abc_rounds_0_3
  by simp

lemma sha1_Sum_abc:
  "sha1_Sum (stringBytes ''abc'') =
     [0xA9, 0x99, 0x3E, 0x36, 0x47, 0x6, 0x81, 0x6A, 0xBA, 0x3E, 0x25, 0x71, 0x78, 0x50,
     0xC2, 0x6C, 0x9C, 0xD0, 0xD8, 0x9D]"
proof -
  have "length (stringBytes ''abc'') = 3"
    by (simp add: stringBytes_def)
  then show ?thesis
    by (simp add: sha1_Sum_def abc_padded sha1_blocks_numeral abc_block_0 BEPutUint32_def
        del: sha1_block.simps)
qed

text \<open>
  A message of 56 bytes, which the padding extends to two blocks; its digest is
  \<open>84983e44 1c3bd26e baae4aa1 f95129e5 e54670f1\<close>.
\<close>

lemma two_blocks_padded:
  "stringBytes ''abcdbcdecdefdefgefghfghighijhijkijkljklmklmnlmnomnopnopq'' @ sha1_padding 56 =
     [0x61, 0x62, 0x63, 0x64, 0x62, 0x63, 0x64, 0x65, 0x63, 0x64, 0x65, 0x66, 0x64, 0x65,
     0x66, 0x67, 0x65, 0x66, 0x67, 0x68, 0x66, 0x67, 0x68, 0x69, 0x67, 0x68, 0x69, 0x6A,
     0x68, 0x69, 0x6A, 0x6B, 0x69, 0x6A, 0x6B, 0x6C, 0x6A, 0x6B, 0x6C, 0x6D, 0x6B, 0x6C,
     0x6D, 0x6E, 0x6C, 0x6D, 0x6E, 0x6F, 0x6D, 0x6E, 0x6F, 0x70, 0x6E, 0x6F, 0x70, 0x71,
     0x80, 0, 0, 0, 0, 0, 0, 0, 0, 0, 0, 0, 0, 0, 0, 0, 0, 0, 0, 0, 0, 0, 0, 0, 0, 0, 0, 0,
     0, 0, 0, 0, 0, 0, 0, 0, 0, 0, 0, 0, 0, 0, 0, 0, 0, 0, 0, 0, 0, 0, 0, 0, 0, 0, 0, 0, 0,
     0, 0, 0, 0, 0, 0, 0, 0, 0, 0, 0, 0, 0, 0x1, 0xC0]"
  by (simp add: stringBytes_def sha1_padding_def BEPutUint64_def replicate_numeral)

lemma two_blocks_schedule_0:
  "schedule
     [0x61, 0x62, 0x63, 0x64, 0x62, 0x63, 0x64, 0x65, 0x63, 0x64, 0x65, 0x66, 0x64, 0x65,
     0x66, 0x67, 0x65, 0x66, 0x67, 0x68, 0x66, 0x67, 0x68, 0x69, 0x67, 0x68, 0x69, 0x6A,
     0x68, 0x69, 0x6A, 0x6B, 0x69, 0x6A, 0x6B, 0x6C, 0x6A, 0x6B, 0x6C, 0x6D, 0x6B, 0x6C,
     0x6D, 0x6E, 0x6C, 0x6D, 0x6E, 0x6F, 0x6D, 0x6E, 0x6F, 0x70, 0x6E, 0x6F, 0x70, 0x71,
     0x80, 0, 0, 0, 0, 0, 0, 0] =
     [0x61626364, 0x62636465, 0x63646566, 0x64656667, 0x65666768, 0x66676869, 0x6768696A,
     0x68696A6B, 0x696A6B6C, 0x6A6B6C6D, 0x6B6C6D6E, 0x6C6D6E6F, 0x6D6E6F70, 0x6E6F7071,
     0x80000000, 0, 0xA063A3E, 0xD8DADCDF, 0xDADCDEC0, 0xC8D2B4BE, 0x6F757B5B, 0x757B5967,
     0x8DA16D70, 0xDAEEFABA, 0xFAF6CAB6, 0xA6FB675A, 0xC604CC8, 0x604CC02C, 0x49C0E6E2,
     0x2EE8CBBC, 0xCFD72EC4, 0x97E9810E, 0x989CBE8, 0xF24843FE, 0x5C40D0BA, 0xA8D9CC3B,
     0xB2B9666E, 0xBA7B71B7, 0x20B28A72, 0xB28AF500, 0x8AC87842, 0x289ADDF4, 0x56D51F21,
     0xD96B7FD2, 0x3868E778, 0xAB5E4848, 0x7F0E2118, 0xDE87A111, 0xE8BE56B0, 0x1A0AE652,
     0xCD5611C8, 0x46EF29DC, 0x60D3DA6D, 0xDDF3BA6E, 0x2737F5E9, 0x4888A710, 0xD2A1177B,
     0x9999633B, 0xD6C69D03, 0xCCF6127B, 0x7C58FE6D, 0xFDD99C68, 0xF8E32074, 0xE0BA3C7D,
     0x152198D6, 0x7B3F1982, 0x37F2D5B7, 0x8596323E, 0x810790D6, 0xBEA0A942, 0x11C7E1B1,
     0x6158D101, 0x5FCD77D9, 0x7F2F12E6, 0xF868CFB1, 0xD6E997E9, 0xF526B852, 0xB7578DCC,
     0x55D99DF4, 0x1FF69958]"
  by (simp add: schedule_def blockWords_numeral expand_numeral rotl32)

lemma two_blocks_rounds_0_0:
  "foldl sha1_round
     (0x67452301, 0xEFCDAB89, 0x98BADCFE, 0x10325476, 0xC3D2E1F0)
     [(0, 0x61626364), (1, 0x62636465), (2, 0x63646566), (3, 0x64656667), (4, 0x65666768),
     (5, 0x66676869), (6, 0x6768696A), (7, 0x68696A6B), (8, 0x696A6B6C), (9, 0x6A6B6C6D),
     (10, 0x6B6C6D6E), (11, 0x6C6D6E6F), (12, 0x6D6E6F70), (13, 0x6E6F7071), (14,
     0x80000000), (15, 0), (16, 0xA063A3E), (17, 0xD8DADCDF), (18, 0xDADCDEC0), (19,
     0xC8D2B4BE)] =
     (0x6C445652, 0x944B1BD1, 0x509AE70D, 0x1AC1A012, 0x5098DF8E)"
  by (simp add: sha1_f_def sha1_K_def rotl32)

lemma two_blocks_rounds_0_1:
  "foldl sha1_round
     (0x6C445652, 0x944B1BD1, 0x509AE70D, 0x1AC1A012, 0x5098DF8E)
     [(20, 0x6F757B5B), (21, 0x757B5967), (22, 0x8DA16D70), (23, 0xDAEEFABA), (24,
     0xFAF6CAB6), (25, 0xA6FB675A), (26, 0xC604CC8), (27, 0x604CC02C), (28, 0x49C0E6E2), (29,
     0x2EE8CBBC), (30, 0xCFD72EC4), (31, 0x97E9810E), (32, 0x989CBE8), (33, 0xF24843FE), (34,
     0x5C40D0BA), (35, 0xA8D9CC3B), (36, 0xB2B9666E), (37, 0xBA7B71B7), (38, 0x20B28A72),
     (39, 0xB28AF500)] =
     (0xADEB7478, 0x24957F22, 0x50FE1EBA, 0x564CFF26, 0xAADF0CBB)"
  by (simp add: sha1_f_def sha1_K_def rotl32)

lemma two_blocks_rounds_0_2:
  "foldl sha1_round
     (0xADEB7478, 0x24957F22, 0x50FE1EBA, 0x564CFF26, 0xAADF0CBB)
     [(40, 0x8AC87842), (41, 0x289ADDF4), (42, 0x56D51F21), (43, 0xD96B7FD2), (44,
     0x3868E778), (45, 0xAB5E4848), (46, 0x7F0E2118), (47, 0xDE87A111), (48, 0xE8BE56B0),
     (49, 0x1A0AE652), (50, 0xCD5611C8), (51, 0x46EF29DC), (52, 0x60D3DA6D), (53,
     0xDDF3BA6E), (54, 0x2737F5E9), (55, 0x4888A710), (56, 0xD2A1177B), (57, 0x9999633B),
     (58, 0xD6C69D03), (59, 0xCCF6127B)] =
     (0x9EF775C3, 0xF03D3782, 0xEB029E53, 0xE9A06DC8, 0x1DDB0E44)"
  by (simp add: sha1_f_def sha1_K_def rotl32)

lemma two_blocks_rounds_0_3:
  "foldl sha1_round
     (0x9EF775C3, 0xF03D3782, 0xEB029E53, 0xE9A06DC8, 0x1DDB0E44)
     [(60, 0x7C58FE6D), (61, 0xFDD99C68), (62, 0xF8E32074), (63, 0xE0BA3C7D), (64,
     0x152198D6), (65, 0x7B3F1982), (66, 0x37F2D5B7), (67, 0x8596323E), (68, 0x810790D6),
     (69, 0xBEA0A942), (70, 0x11C7E1B1), (71, 0x6158D101), (72, 0x5FCD77D9), (73,
     0x7F2F12E6), (74, 0xF868CFB1), (75, 0xD6E997E9), (76, 0xF526B852), (77, 0xB7578DCC),
     (78, 0x55D99DF4), (79, 0x1FF69958)] =
     (0x8CE34517, 0xD3AD7C25, 0x6B4E1883, 0x74351CD2, 0x86838382)"
  by (simp add: sha1_f_def sha1_K_def rotl32)

lemma two_blocks_pairs_0:
  "zip [0..<80]
     [0x61626364, 0x62636465, 0x63646566, 0x64656667, 0x65666768, 0x66676869, 0x6768696A,
     0x68696A6B, 0x696A6B6C, 0x6A6B6C6D, 0x6B6C6D6E, 0x6C6D6E6F, 0x6D6E6F70, 0x6E6F7071,
     0x80000000, 0, 0xA063A3E, 0xD8DADCDF, 0xDADCDEC0, 0xC8D2B4BE, 0x6F757B5B, 0x757B5967,
     0x8DA16D70, 0xDAEEFABA, 0xFAF6CAB6, 0xA6FB675A, 0xC604CC8, 0x604CC02C, 0x49C0E6E2,
     0x2EE8CBBC, 0xCFD72EC4, 0x97E9810E, 0x989CBE8, 0xF24843FE, 0x5C40D0BA, 0xA8D9CC3B,
     0xB2B9666E, 0xBA7B71B7, 0x20B28A72, 0xB28AF500, 0x8AC87842, 0x289ADDF4, 0x56D51F21,
     0xD96B7FD2, 0x3868E778, 0xAB5E4848, 0x7F0E2118, 0xDE87A111, 0xE8BE56B0, 0x1A0AE652,
     0xCD5611C8, 0x46EF29DC, 0x60D3DA6D, 0xDDF3BA6E, 0x2737F5E9, 0x4888A710, 0xD2A1177B,
     0x9999633B, 0xD6C69D03, 0xCCF6127B, 0x7C58FE6D, 0xFDD99C68, 0xF8E32074, 0xE0BA3C7D,
     0x152198D6, 0x7B3F1982, 0x37F2D5B7, 0x8596323E, 0x810790D6, 0xBEA0A942, 0x11C7E1B1,
     0x6158D101, 0x5FCD77D9, 0x7F2F12E6, 0xF868CFB1, 0xD6E997E9, 0xF526B852, 0xB7578DCC,
     0x55D99DF4, 0x1FF69958] =
     [(0, 0x61626364), (1, 0x62636465), (2, 0x63646566), (3, 0x64656667), (4, 0x65666768),
     (5, 0x66676869), (6, 0x6768696A), (7, 0x68696A6B), (8, 0x696A6B6C), (9, 0x6A6B6C6D),
     (10, 0x6B6C6D6E), (11, 0x6C6D6E6F), (12, 0x6D6E6F70), (13, 0x6E6F7071), (14,
     0x80000000), (15, 0), (16, 0xA063A3E), (17, 0xD8DADCDF), (18, 0xDADCDEC0), (19,
     0xC8D2B4BE)]
     @ [(20, 0x6F757B5B), (21, 0x757B5967), (22, 0x8DA16D70), (23, 0xDAEEFABA), (24,
     0xFAF6CAB6), (25, 0xA6FB675A), (26, 0xC604CC8), (27, 0x604CC02C), (28, 0x49C0E6E2), (29,
     0x2EE8CBBC), (30, 0xCFD72EC4), (31, 0x97E9810E), (32, 0x989CBE8), (33, 0xF24843FE), (34,
     0x5C40D0BA), (35, 0xA8D9CC3B), (36, 0xB2B9666E), (37, 0xBA7B71B7), (38, 0x20B28A72),
     (39, 0xB28AF500)]
     @ [(40, 0x8AC87842), (41, 0x289ADDF4), (42, 0x56D51F21), (43, 0xD96B7FD2), (44,
     0x3868E778), (45, 0xAB5E4848), (46, 0x7F0E2118), (47, 0xDE87A111), (48, 0xE8BE56B0),
     (49, 0x1A0AE652), (50, 0xCD5611C8), (51, 0x46EF29DC), (52, 0x60D3DA6D), (53,
     0xDDF3BA6E), (54, 0x2737F5E9), (55, 0x4888A710), (56, 0xD2A1177B), (57, 0x9999633B),
     (58, 0xD6C69D03), (59, 0xCCF6127B)]
     @ [(60, 0x7C58FE6D), (61, 0xFDD99C68), (62, 0xF8E32074), (63, 0xE0BA3C7D), (64,
     0x152198D6), (65, 0x7B3F1982), (66, 0x37F2D5B7), (67, 0x8596323E), (68, 0x810790D6),
     (69, 0xBEA0A942), (70, 0x11C7E1B1), (71, 0x6158D101), (72, 0x5FCD77D9), (73,
     0x7F2F12E6), (74, 0xF868CFB1), (75, 0xD6E997E9), (76, 0xF526B852), (77, 0xB7578DCC),
     (78, 0x55D99DF4), (79, 0x1FF69958)]"
  by (simp add: upt_rec)

lemma two_blocks_block_0:
  "sha1_block sha1_init
     [0x61, 0x62, 0x63, 0x64, 0x62, 0x63, 0x64, 0x65, 0x63, 0x64, 0x65, 0x66, 0x64, 0x65,
     0x66, 0x67, 0x65, 0x66, 0x67, 0x68, 0x66, 0x67, 0x68, 0x69, 0x67, 0x68, 0x69, 0x6A,
     0x68, 0x69, 0x6A, 0x6B, 0x69, 0x6A, 0x6B, 0x6C, 0x6A, 0x6B, 0x6C, 0x6D, 0x6B, 0x6C,
     0x6D, 0x6E, 0x6C, 0x6D, 0x6E, 0x6F, 0x6D, 0x6E, 0x6F, 0x70, 0x6E, 0x6F, 0x70, 0x71,
     0x80, 0, 0, 0, 0, 0, 0, 0] =
     (0xF4286818, 0xC37B27AE, 0x408F581, 0x84677148, 0x4A566572)"
  unfolding sha1_init_def sha1_block.simps two_blocks_schedule_0 two_blocks_pairs_0 foldl_append
    two_blocks_rounds_0_0 two_blocks_rounds_0_1 two_blocks_rounds_0_2 two_blocks_rounds_0_3
  by simp

lemma two_blocks_schedule_1:
  "schedule
     [0, 0, 0, 0, 0, 0, 0, 0, 0, 0, 0, 0, 0, 0, 0, 0, 0, 0, 0, 0, 0, 0, 0, 0, 0, 0, 0, 0, 0,
     0, 0, 0, 0, 0, 0, 0, 0, 0, 0, 0, 0, 0, 0, 0, 0, 0, 0, 0, 0, 0, 0, 0, 0, 0, 0, 0, 0, 0,
     0, 0, 0, 0, 0x1, 0xC0] =
     [0, 0, 0, 0, 0, 0, 0, 0, 0, 0, 0, 0, 0, 0, 0, 0x1C0, 0, 0, 0x380, 0, 0, 0x700, 0, 0x380,
     0xE00, 0, 0, 0x1C00, 0, 0xD80, 0x3800, 0x480, 0, 0x7000, 0xE00, 0x3600, 0xE000, 0xE00,
     0, 0x1CE00, 0, 0xD800, 0x38000, 0x4F00, 0, 0x70E00, 0xEE00, 0x37500, 0xE0000, 0xE000,
     0x3600, 0x1CEE00, 0, 0xDF000, 0x380000, 0x4C600, 0xE000, 0x70EE00, 0xEE000, 0x369E00,
     0xE00000, 0xED600, 0xE000, 0x1CEA600, 0, 0xD80000, 0x380E000, 0x4F0000, 0, 0x70E0000,
     0xEE0000, 0x3751C00, 0xE000000, 0xE0E000, 0x363800, 0x1CEE9000, 0, 0xDF09000,
     0x3800E000, 0x4C77400]"
  by (simp add: schedule_def blockWords_numeral expand_numeral rotl32)

lemma two_blocks_rounds_1_0:
  "foldl sha1_round
     (0xF4286818, 0xC37B27AE, 0x408F581, 0x84677148, 0x4A566572)
     [(0, 0), (1, 0), (2, 0), (3, 0), (4, 0), (5, 0), (6, 0), (7, 0), (8, 0), (9, 0), (10,
     0), (11, 0), (12, 0), (13, 0), (14, 0), (15, 0x1C0), (16, 0), (17, 0), (18, 0x380), (19,
     0)] =
     (0xD8992153, 0xC2EB709F, 0x2946D62F, 0x9541F6DB, 0x365DC8D8)"
  by (simp add: sha1_f_def sha1_K_def rotl32)

lemma two_blocks_rounds_1_1:
  "foldl sha1_round
     (0xD8992153, 0xC2EB709F, 0x2946D62F, 0x9541F6DB, 0x365DC8D8)
     [(20, 0), (21, 0x700), (22, 0), (23, 0x380), (24, 0xE00), (25, 0), (26, 0), (27,
     0x1C00), (28, 0), (29, 0xD80), (30, 0x3800), (31, 0x480), (32, 0), (33, 0x7000), (34,
     0xE00), (35, 0x3600), (36, 0xE000), (37, 0xE00), (38, 0), (39, 0x1CE00)] =
     (0x3BB6310, 0x84E2A5F2, 0x21F56E03, 0xB3BD6B84, 0x1A5B6901)"
  by (simp add: sha1_f_def sha1_K_def rotl32)

lemma two_blocks_rounds_1_2:
  "foldl sha1_round
     (0x3BB6310, 0x84E2A5F2, 0x21F56E03, 0xB3BD6B84, 0x1A5B6901)
     [(40, 0), (41, 0xD800), (42, 0x38000), (43, 0x4F00), (44, 0), (45, 0x70E00), (46,
     0xEE00), (47, 0x37500), (48, 0xE0000), (49, 0xE000), (50, 0x3600), (51, 0x1CEE00), (52,
     0), (53, 0xDF000), (54, 0x380000), (55, 0x4C600), (56, 0xE000), (57, 0x70EE00), (58,
     0xEE000), (59, 0x369E00)] =
     (0xA65818F7, 0x5B086C42, 0xB9E15956, 0xEA1256A6, 0xDB69CB9F)"
  by (simp add: sha1_f_def sha1_K_def rotl32)

lemma two_blocks_rounds_1_3:
  "foldl sha1_round
     (0xA65818F7, 0x5B086C42, 0xB9E15956, 0xEA1256A6, 0xDB69CB9F)
     [(60, 0xE00000), (61, 0xED600), (62, 0xE000), (63, 0x1CEA600), (64, 0), (65, 0xD80000),
     (66, 0x380E000), (67, 0x4F0000), (68, 0), (69, 0x70E0000), (70, 0xEE0000), (71,
     0x3751C00), (72, 0xE000000), (73, 0xE0E000), (74, 0x363800), (75, 0x1CEE9000), (76, 0),
     (77, 0xDF09000), (78, 0x3800E000), (79, 0x4C77400)] =
     (0x906FD62C, 0x58C0AAC0, 0xB6A55520, 0x74E9B89D, 0x9AF00B7F)"
  by (simp add: sha1_f_def sha1_K_def rotl32)

lemma two_blocks_pairs_1:
  "zip [0..<80]
     [0, 0, 0, 0, 0, 0, 0, 0, 0, 0, 0, 0, 0, 0, 0, 0x1C0, 0, 0, 0x380, 0, 0, 0x700, 0, 0x380,
     0xE00, 0, 0, 0x1C00, 0, 0xD80, 0x3800, 0x480, 0, 0x7000, 0xE00, 0x3600, 0xE000, 0xE00,
     0, 0x1CE00, 0, 0xD800, 0x38000, 0x4F00, 0, 0x70E00, 0xEE00, 0x37500, 0xE0000, 0xE000,
     0x3600, 0x1CEE00, 0, 0xDF000, 0x380000, 0x4C600, 0xE000, 0x70EE00, 0xEE000, 0x369E00,
     0xE00000, 0xED600, 0xE000, 0x1CEA600, 0, 0xD80000, 0x380E000, 0x4F0000, 0, 0x70E0000,
     0xEE0000, 0x3751C00, 0xE000000, 0xE0E000, 0x363800, 0x1CEE9000, 0, 0xDF09000,
     0x3800E000, 0x4C77400] =
     [(0, 0), (1, 0), (2, 0), (3, 0), (4, 0), (5, 0), (6, 0), (7, 0), (8, 0), (9, 0), (10,
     0), (11, 0), (12, 0), (13, 0), (14, 0), (15, 0x1C0), (16, 0), (17, 0), (18, 0x380), (19,
     0)]
     @ [(20, 0), (21, 0x700), (22, 0), (23, 0x380), (24, 0xE00), (25, 0), (26, 0), (27,
     0x1C00), (28, 0), (29, 0xD80), (30, 0x3800), (31, 0x480), (32, 0), (33, 0x7000), (34,
     0xE00), (35, 0x3600), (36, 0xE000), (37, 0xE00), (38, 0), (39, 0x1CE00)]
     @ [(40, 0), (41, 0xD800), (42, 0x38000), (43, 0x4F00), (44, 0), (45, 0x70E00), (46,
     0xEE00), (47, 0x37500), (48, 0xE0000), (49, 0xE000), (50, 0x3600), (51, 0x1CEE00), (52,
     0), (53, 0xDF000), (54, 0x380000), (55, 0x4C600), (56, 0xE000), (57, 0x70EE00), (58,
     0xEE000), (59, 0x369E00)]
     @ [(60, 0xE00000), (61, 0xED600), (62, 0xE000), (63, 0x1CEA600), (64, 0), (65, 0xD80000),
     (66, 0x380E000), (67, 0x4F0000), (68, 0), (69, 0x70E0000), (70, 0xEE0000), (71,
     0x3751C00), (72, 0xE000000), (73, 0xE0E000), (74, 0x363800), (75, 0x1CEE9000), (76, 0),
     (77, 0xDF09000), (78, 0x3800E000), (79, 0x4C77400)]"
  by (simp add: upt_rec)

lemma two_blocks_block_1:
  "sha1_block (0xF4286818, 0xC37B27AE, 0x408F581, 0x84677148, 0x4A566572)
     [0, 0, 0, 0, 0, 0, 0, 0, 0, 0, 0, 0, 0, 0, 0, 0, 0, 0, 0, 0, 0, 0, 0, 0, 0, 0, 0, 0, 0,
     0, 0, 0, 0, 0, 0, 0, 0, 0, 0, 0, 0, 0, 0, 0, 0, 0, 0, 0, 0, 0, 0, 0, 0, 0, 0, 0, 0, 0,
     0, 0, 0, 0, 0x1, 0xC0] =
     (0x84983E44, 0x1C3BD26E, 0xBAAE4AA1, 0xF95129E5, 0xE54670F1)"
  unfolding sha1_block.simps two_blocks_schedule_1 two_blocks_pairs_1 foldl_append
    two_blocks_rounds_1_0 two_blocks_rounds_1_1 two_blocks_rounds_1_2 two_blocks_rounds_1_3
  by simp

lemma sha1_Sum_two_blocks:
  "sha1_Sum (stringBytes ''abcdbcdecdefdefgefghfghighijhijkijkljklmklmnlmnomnopnopq'') =
     [0x84, 0x98, 0x3E, 0x44, 0x1C, 0x3B, 0xD2, 0x6E, 0xBA, 0xAE, 0x4A, 0xA1, 0xF9, 0x51,
     0x29, 0xE5, 0xE5, 0x46, 0x70, 0xF1]"
proof -
  have "length (stringBytes ''abcdbcdecdefdefgefghfghighijhijkijkljklmklmnlmnomnopnopq'') = 56"
    by (simp add: stringBytes_def)
  then show ?thesis
    by (simp add: sha1_Sum_def two_blocks_padded sha1_blocks_numeral two_blocks_block_0 two_blocks_block_1 BEPutUint32_def
        del: sha1_block.simps)
qed

subsection \<open>Concrete strings\<close>

lemma SetString_minus_one: "SetString ''-1'' 16 = Some (- 1)"
  by (simp add: SetString_def stringBytes_def scanDigit_def)

lemma SetString_xyz: "SetString ''xyz'' 16 = None"
  by (simp add: SetString_def stringBytes_def scanDigit_def)

lemma ParseInt_xyz: "ParseInt ''xyz'' 10 64 = Inl ErrSyntax"
  by (simp add: ParseInt_def ParseUint_def stringBytes_def lower_def)

section \<open>Interval containment\<close>

text \<open>
  Claim C1. The closed-right test \<open>x \<in> (a, b]\<close> (\<open>InRange\<close>): when \<open>a = b\<close> it holds
  exactly when \<open>x \<noteq> a\<close>; when \<open>a < b\<close> exactly when \<open>a < x \<le> b\<close>; when \<open>a > b\<close>
  exactly when \<open>x > a\<close> or \<open>x \<le> b\<close>. With \<open>a = 200\<close> and \<open>b = 10\<close>: 5 and 10 are
  inside, 150 and 200 are outside.
\<close>

theorem InRange_cases:
  "(hvalue a = hvalue b \<longrightarrow> InRange x (Some a) (Some b) = (hvalue x \<noteq> hvalue a))
   \<and> (hvalue a < hvalue b \<longrightarrow>
        InRange x (Some a) (Some b) = (hvalue a < hvalue x \<and> hvalue x \<le> hvalue b))
   \<and> (hvalue a > hvalue b \<longrightarrow>
        InRange x (Some a) (Some b) = (hvalue x > hvalue a \<or> hvalue x \<le> hvalue b))
   \<and> InRange (hashOf 5) (Some (hashOf 200)) (Some (hashOf 10))
   \<and> \<not> InRange (hashOf 150) (Some (hashOf 200)) (Some (hashOf 10))
   \<and> InRange (hashOf 10) (Some (hashOf 200)) (Some (hashOf 10))
   \<and> \<not> InRange (hashOf 200) (Some (hashOf 200)) (Some (hashOf 10))"
  by (auto simp add: InRange_def Equal_Some Less_Some hvalue_hashOf)

text \<open>The three cases at concrete identifiers: \<open>(3, 3]\<close>, \<open>(3, 9]\<close> and \<open>(9, 3]\<close>.\<close>

theorem InRange_cases_witness:
  "hvalue (hashOf 3) = hvalue (hashOf 3) \<and> InRange (hashOf 7) (Some (hashOf 3)) (Some (hashOf 3))
   \<and> hvalue (hashOf 3) < hvalue (hashOf 9)
   \<and> InRange (hashOf 7) (Some (hashOf 3)) (Some (hashOf 9))
   \<and> hvalue (hashOf 9) > hvalue (hashOf 3)
   \<and> InRange (hashOf 2) (Some (hashOf 9)) (Some (hashOf 3))"
  using InRange_cases [of "hashOf 3" "hashOf 3" "hashOf 7"]
    InRange_cases [of "hashOf 3" "hashOf 9" "hashOf 7"]
    InRange_cases [of "hashOf 9" "hashOf 3" "hashOf 2"]
  by (simp add: hvalue_hashOf)

text \<open>
  Claim C4. The fully-open test \<open>x \<in> (a, b)\<close> (\<open>InRangeExclusive\<close>): when \<open>a = b\<close>
  it is false for every \<open>x\<close>; when \<open>a < b\<close> it holds exactly when \<open>a < x < b\<close>; when
  \<open>a > b\<close> the interval wraps zero and it holds exactly when \<open>x > a\<close> or \<open>x < b\<close>.
\<close>

theorem InRangeExclusive_cases:
  "(hvalue a = hvalue b \<longrightarrow> \<not> InRangeExclusive x (Some a) (Some b))
   \<and> (hvalue a < hvalue b \<longrightarrow>
        InRangeExclusive x (Some a) (Some b) = (hvalue a < hvalue x \<and> hvalue x < hvalue b))
   \<and> (hvalue a > hvalue b \<longrightarrow>
        InRangeExclusive x (Some a) (Some b) = (hvalue x > hvalue a \<or> hvalue x < hvalue b))"
  by (auto simp add: InRangeExclusive_def Equal_Some Less_Some)

text \<open>The three cases at concrete identifiers: \<open>(3, 3)\<close>, \<open>(3, 9)\<close> and \<open>(9, 3)\<close>.\<close>

theorem InRangeExclusive_cases_witness:
  "hvalue (hashOf 3) = hvalue (hashOf 3)
   \<and> \<not> InRangeExclusive (hashOf 7) (Some (hashOf 3)) (Some (hashOf 3))
   \<and> hvalue (hashOf 3) < hvalue (hashOf 9)
   \<and> InRangeExclusive (hashOf 7) (Some (hashOf 3)) (Some (hashOf 9))
   \<and> hvalue (hashOf 9) > hvalue (hashOf 3)
   \<and> InRangeExclusive (hashOf 2) (Some (hashOf 9)) (Some (hashOf 3))"
  using InRangeExclusive_cases [of "hashOf 3" "hashOf 3" "hashOf 7"]
    InRangeExclusive_cases [of "hashOf 3" "hashOf 9" "hashOf 7"]
    InRangeExclusive_cases [of "hashOf 9" "hashOf 3" "hashOf 2"]
  by (simp add: hvalue_hashOf)

text \<open>
  Claim C3, as amended. The claim states, for all \<open>a\<close>, \<open>b\<close>, \<open>x\<close> and also for
  \<open>a = b\<close>, that \<open>x \<in> (a, b]\<close> holds if and only if \<open>x = b\<close>, or \<open>x \<noteq> a\<close> and the
  clockwise distance from \<open>a\<close> to \<open>x\<close> is less than the one from \<open>a\<close> to \<open>b\<close>. On
  identifiers of the ring this equivalence holds whenever \<open>a \<noteq> b\<close>. When \<open>a = b\<close>
  the interval is the whole ring except \<open>a\<close>: \<open>InRange\<close> holds exactly when
  \<open>x \<noteq> a\<close>, whereas the right-hand side of the claim holds exactly when \<open>x = a\<close>.
\<close>

theorem InRange_Distance:
  "in_ring x \<Longrightarrow> in_ring a \<Longrightarrow> in_ring b \<Longrightarrow>
   (\<not> Equal a (Some b) \<longrightarrow>
      (InRange x (Some a) (Some b) \<longleftrightarrow>
         (Equal x (Some b)
          \<or> (\<not> Equal x (Some a) \<and> Distance a (Some x) < Distance a (Some b)))))
   \<and> (Equal a (Some b) \<longrightarrow> (InRange x (Some a) (Some b) \<longleftrightarrow> \<not> Equal x (Some a)))"
  by (auto simp add: InRange_def Equal_Some Less_Some Distance_Some in_ring_def)

text \<open>
  The amended statement on the wrapping interval \<open>(200, 10]\<close> at \<open>x = 5\<close>, and on
  \<open>(3, 3]\<close> at \<open>x = 7\<close>.
\<close>

theorem InRange_Distance_witness:
  "in_ring (hashOf 5) \<and> in_ring (hashOf 200) \<and> in_ring (hashOf 10)
   \<and> \<not> Equal (hashOf 200) (Some (hashOf 10))
   \<and> InRange (hashOf 5) (Some (hashOf 200)) (Some (hashOf 10))
   \<and> Distance (hashOf 200) (Some (hashOf 5)) < Distance (hashOf 200) (Some (hashOf 10))
   \<and> in_ring (hashOf 7) \<and> in_ring (hashOf 3)
   \<and> Equal (hashOf 3) (Some (hashOf 3))
   \<and> InRange (hashOf 7) (Some (hashOf 3)) (Some (hashOf 3))"
  using InRange_Distance [of "hashOf 5" "hashOf 200" "hashOf 10"]
    InRange_Distance [of "hashOf 7" "hashOf 3" "hashOf 3"]
  by (simp add: in_ring_hashOf Equal_Some Distance_Some hvalue_hashOf)

text \<open>
  The claim as stated fails at \<open>a = b = 3\<close>, \<open>x = 7\<close>: 7 lies in \<open>(3, 3]\<close>, but 7 is
  not 3 and the distance from 3 to 7 is not less than the distance 0 from 3 to 3.
\<close>

theorem InRange_Distance_counterexample:
  "\<not> (InRange (hashOf 7) (Some (hashOf 3)) (Some (hashOf 3)) \<longleftrightarrow>
       (Equal (hashOf 7) (Some (hashOf 3))
        \<or> (\<not> Equal (hashOf 7) (Some (hashOf 3))
            \<and> Distance (hashOf 3) (Some (hashOf 7)) < Distance (hashOf 3) (Some (hashOf 3)))))"
  by (simp add: InRange_def Equal_Some Less_Some Distance_Some hvalue_hashOf)

section \<open>Modular addition and finger starts\<close>

text \<open>
  Claim C7. \<open>Add\<close> yields exactly \<open>(h + v) mod 2^160\<close> (for every \<open>h\<close> and \<open>v\<close>, so
  also for \<open>h\<close> in the ring and \<open>v\<close> non-negative); a sum of \<open>2^160\<close> or more is
  reduced, and the hash built from the value \<open>2^160\<close> is the identifier 0.
\<close>

theorem Add_mod:
  "hvalue (Add h v) = (hvalue h + v) mod 2 ^ 160
   \<and> hvalue (NewHash (Some (2 ^ 160))) = 0"
  by (simp add: Add_def hvalue_NewHash_Some)

text \<open>Adding 1 to the largest identifier, and adding \<open>2^160\<close> to 5.\<close>

theorem Add_mod_witness:
  "hvalue (Add (hashOf (2 ^ 160 - 1)) 1) = 0 \<and> hvalue (Add (hashOf 5) (2 ^ 160)) = 5"
  using Add_mod [of "hashOf (2 ^ 160 - 1)" 1] Add_mod [of "hashOf 5" "2 ^ 160"]
  by (simp add: hvalue_hashOf)

text \<open>
  Claim C5. For every node identifier \<open>n\<close> and every index \<open>i\<close> with \<open>1 \<le> i \<le> 160\<close>,
  \<open>FingerStart n i\<close> is \<open>(n + 2^(i-1)) mod 2^160\<close>. For the node identifier 100 the
  starts 1 to 4 are 101, 102, 104, 108, and start 8 is 228.
\<close>

theorem FingerStart_value:
  "(1 \<le> i \<and> i \<le> 160 \<longrightarrow>
      hvalue (FingerStart n i) = (hvalue n + 2 ^ nat (i - 1)) mod 2 ^ 160)
   \<and> hvalue (FingerStart (hashOf 100) 1) = 101
   \<and> hvalue (FingerStart (hashOf 100) 2) = 102
   \<and> hvalue (FingerStart (hashOf 100) 3) = 104
   \<and> hvalue (FingerStart (hashOf 100) 4) = 108
   \<and> hvalue (FingerStart (hashOf 100) 8) = 228"
  by (simp add: FingerStart_def AddPowerOfTwo_def Add_def M_def hvalue_NewHash_Some
      hvalue_hashOf push_bit_eq_mult)

text \<open>The last finger of the largest identifier wraps around zero.\<close>

theorem FingerStart_value_witness:
  "(1::int) \<le> 160 \<and> (160::int) \<le> 160
   \<and> hvalue (FingerStart (hashOf (2 ^ 160 - 1)) 160) = 2 ^ 159 - 1"
  using FingerStart_value [of 160 "hashOf (2 ^ 160 - 1)"]
  by (simp add: hvalue_hashOf)

text \<open>
  Claim C10. An index out of range is clamped, not rejected: for an identifier \<open>h\<close> of
  the ring, \<open>AddPowerOfTwo h i\<close> with \<open>i < 0\<close> or \<open>i \<ge> 160\<close> is an identifier equal to
  \<open>h\<close>, and \<open>FingerStart h i\<close> with \<open>i \<le> 0\<close> or \<open>i > 160\<close> is the copy of \<open>h\<close>, which
  equals \<open>h\<close>. Both functions return a hash and have no error result.
\<close>

theorem index_clamped:
  "in_ring h \<Longrightarrow>
   ((i < 0 \<or> i \<ge> 160) \<longrightarrow> AddPowerOfTwo h i = h \<and> Equal (AddPowerOfTwo h i) (Some h))
   \<and> ((i \<le> 0 \<or> i > 160) \<longrightarrow>
        FingerStart h i = Copy h \<and> Copy h = h \<and> Equal (FingerStart h i) (Some h))"
  by (simp add: FingerStart_def AddPowerOfTwo_def Copy_def M_def NewHash_id Equal_Some)

text \<open>The indices \<open>-1\<close>, 160, 0 and 161 at the identifier 100.\<close>

theorem index_clamped_witness:
  "in_ring (hashOf 100) \<and> AddPowerOfTwo (hashOf 100) (- 1) = hashOf 100
   \<and> AddPowerOfTwo (hashOf 100) 160 = hashOf 100
   \<and> FingerStart (hashOf 100) 0 = hashOf 100
   \<and> FingerStart (hashOf 100) 161 = hashOf 100"
  using index_clamped [of "hashOf 100" "- 1"] index_clamped [of "hashOf 100" 160]
    index_clamped [of "hashOf 100" 0] index_clamped [of "hashOf 100" 161]
  by (simp add: in_ring_hashOf)

section \<open>Identifiers from strings\<close>

text \<open>
  Claim C6. For every string \<open>s\<close>, the identifier that \<open>NewHashFromString\<close> and
  \<open>GenerateID\<close> produce is the 20-byte SHA-1 digest of the bytes of \<open>s\<close> read as a
  big-endian unsigned integer; that integer is below \<open>2^160\<close>, so the reduction
  modulo \<open>2^160\<close> in \<open>NewHash\<close> leaves it unchanged.
\<close>

theorem NewHashFromString_sha1:
  "hvalue (NewHashFromString s) = spec_identifier s
   \<and> hvalue (GenerateID s) = spec_identifier s
   \<and> length (sha1_Sum (stringBytes s)) = 20
   \<and> 0 \<le> spec_identifier s \<and> spec_identifier s < 2 ^ 160
   \<and> SetBytes (sha1_Sum (stringBytes s)) mod maxValue = SetBytes (sha1_Sum (stringBytes s))"
  using sha1_less [of "stringBytes s"] BE_unsigned_nonneg [of "sha1_Sum (stringBytes s)"]
  by (simp add: GenerateID_def NewHashFromString_def spec_identifier_def hvalue_NewHash_Some
      SetBytes_BE_unsigned maxValue_eq length_sha1_Sum)

text \<open>The identifier of the string \<open>abc\<close>, from its digest.\<close>

theorem NewHashFromString_sha1_witness:
  "hvalue (GenerateID ''abc'') = 0xA9993E364706816ABA3E25717850C26C9CD0D89D
   \<and> hvalue (NewHashFromString ''abc'') = 0xA9993E364706816ABA3E25717850C26C9CD0D89D"
  using NewHashFromString_sha1 [of "''abc''"]
  by (simp add: spec_identifier_def sha1_Sum_abc)

text \<open>
  Claim C8. Every hash that a constructor or an operation of the package produces
  (\<open>NewHash\<close>, \<open>NewHashFromString\<close>, \<open>NewHashFromHex\<close>, \<open>Add\<close>, \<open>AddPowerOfTwo\<close>,
  \<open>Copy\<close>, \<open>FingerStart\<close>, \<open>ParseNodeID\<close>) has its integer in \<open>[0, 2^160)\<close>, whatever
  the input: a \<open>nil\<close> or negative integer, one of \<open>2^160\<close> or more, a receiver of any
  value.
\<close>

theorem constructors_in_ring:
  "in_ring (NewHash v) \<and> in_ring (NewHashFromString s)
   \<and> (\<forall>h'. NewHashFromHex s = Inr h' \<longrightarrow> in_ring h')
   \<and> in_ring (Add h x) \<and> in_ring (AddPowerOfTwo h i) \<and> in_ring (Copy h)
   \<and> in_ring (FingerStart h i)
   \<and> (\<forall>h'. ParseNodeID s = Inr h' \<longrightarrow> in_ring h')"
  by (auto simp add: NewHashFromString_def NewHashFromHex_def Add_def AddPowerOfTwo_def
      Copy_def FingerStart_def ParseNodeID_def NewHash_in_ring Let_def
      split: option.splits sum.splits)

text \<open>
  The hexadecimal string \<open>-1\<close> gives the largest identifier, and the value \<open>2^160\<close>
  gives 0.
\<close>

theorem constructors_in_ring_witness:
  "NewHashFromHex ''-1'' = Inr (hashOf (- 1)) \<and> ParseNodeID ''-1'' = Inr (hashOf (- 1))
   \<and> in_ring (hashOf (- 1)) \<and> hvalue (hashOf (- 1)) = 2 ^ 160 - 1
   \<and> hvalue (hashOf (2 ^ 160)) = 0"
  using constructors_in_ring [of "Some (- 1)" "''-1''" "hashOf 0" 0 0]
  by (simp add: NewHashFromHex_def ParseNodeID_def SetString_minus_one hashOf_def
      hvalue_NewHash_Some)

text \<open>
  Claim C9. \<open>ParseNodeID\<close> is total and never reports a failure: for every string it
  returns an identifier and no error, because a string that parses neither as
  hexadecimal nor as decimal is hashed with SHA-1; a malformed identifier string is
  not rejected here.
\<close>

theorem ParseNodeID_total:
  "(\<exists>h. ParseNodeID s = Inr h) \<and> (\<forall>e. ParseNodeID s \<noteq> Inl e)
   \<and> (\<forall>e1 e2. NewHashFromHex s = Inl e1 \<and> ParseInt s 10 64 = Inl e2 \<longrightarrow>
         ParseNodeID s = Inr (NewHashFromString s))"
  by (auto simp add: ParseNodeID_def split: sum.splits)

text \<open>The string \<open>xyz\<close> is neither hexadecimal nor decimal, and is hashed.\<close>

theorem ParseNodeID_total_witness:
  "NewHashFromHex ''xyz'' = Inl (InvalidHex ''xyz'') \<and> ParseInt ''xyz'' 10 64 = Inl ErrSyntax
   \<and> ParseNodeID ''xyz'' = Inr (NewHashFromString ''xyz'')"
  using ParseNodeID_total [of "''xyz''"]
  by (simp add: NewHashFromHex_def SetString_xyz ParseInt_xyz)

section \<open>Ring creation\<close>

text \<open>
  Claim C2. For every node (with its table of 160 fingers), \<open>join\<close> with an empty
  bootstrap succeeds and leaves the node in the single-node-ring state: the successor
  is the node's own descriptor, the predecessor is none, and every one of the 160
  finger entries is \<open>self\<close>.
\<close>

theorem Join_empty_bootstrap:
  "length (fingers n) = FingerTableSize \<Longrightarrow>
   \<exists>n'. Join rfs n [] = Inr n' \<and> self n' = self n
        \<and> successor n' = Some (self n) \<and> predecessor n' = None
        \<and> length (fingers n') = 160 \<and> (\<forall>i<160. fingers n' ! i = self n)"
  by (simp add: Join_def FingerTableSize_def M_def)

text \<open>
  A node whose predecessor and fingers all point to another node: ring creation resets
  them.
\<close>

theorem Join_empty_bootstrap_witness:
  "length (fingers nodeA) = FingerTableSize
   \<and> (\<exists>n'. Join (\<lambda>a k. None) nodeA [] = Inr n' \<and> successor n' = Some (self nodeA)
        \<and> predecessor n' = None \<and> fingers n' ! 159 = self nodeA)"
  using Join_empty_bootstrap [of nodeA "\<lambda>a k. None"]
  by (auto simp add: nodeA_def FingerTableSize_def M_def)

end
